theory Spec2Isabelle
  imports Complex_Main "HOL-Library.Sublist"
begin

section \<open>The REST requester of gitbeaker (packages/rest/src/Requester.ts)\<close>

text \<open>
  The module turns an endpoint and request options into a parsed response: it builds the
  URL, calls \<open>fetch\<close> up to ten times, decodes the body by content type and normalises
  failures. The functions of the module are embedded below under their own names. What the
  module takes from the JavaScript platform (strings, \<open>JSON\<close>, \<open>Response\<close>, \<open>URL\<close>,
  \<open>fetch\<close>, \<open>setTimeout\<close>) is modelled first.

  A JavaScript string is a \<open>string\<close>: a list of code units, of which those up to U+00FF
  are covered. A promise is the value it settles to: \<open>Inr\<close> when it fulfils, \<open>Inl\<close>
  when it rejects, so \<open>await\<close> is a case distinction and \<open>throw\<close> is \<open>Inl\<close>.
\<close>

subsection \<open>Strings\<close>

definition str_includes :: "string \<Rightarrow> string \<Rightarrow> bool" where
  \<comment> \<open>\<open>s.includes(t)\<close>: \<open>t\<close> occurs in \<open>s\<close> as a contiguous run.\<close>
  "str_includes s t = sublist t s"

definition startsWith :: "string \<Rightarrow> string \<Rightarrow> bool" where
  "startsWith s t = prefix t s"

definition endsWith :: "string \<Rightarrow> string \<Rightarrow> bool" where
  "endsWith s t = suffix t s"

definition isWhiteSpace :: "char \<Rightarrow> bool" where
  \<comment> \<open>White space and line terminators of ECMAScript up to U+00FF:
      TAB, LF, VT, FF, CR, SP and NBSP.\<close>
  "isWhiteSpace c = ((of_char c :: nat) \<in> {9, 10, 11, 12, 13, 32, 160})"

definition trim :: "string \<Rightarrow> string" where
  "trim s = rev (dropWhile isWhiteSpace (rev (dropWhile isWhiteSpace s)))"

definition split_first :: "char \<Rightarrow> string \<Rightarrow> string" where
  \<comment> \<open>\<open>s.split(sep)[0]\<close> for a one-character separator: the text before its first
      occurrence, all of \<open>s\<close> when there is none.\<close>
  "split_first sep s = takeWhile (\<lambda>c. c \<noteq> sep) s"

definition toLowerCase_char :: "char \<Rightarrow> char" where
  "toLowerCase_char c =
     (let n = (of_char c :: nat) in if 65 \<le> n \<and> n \<le> 90 then char_of (n + 32) else c)"

definition toLowerCase :: "string \<Rightarrow> string" where
  "toLowerCase s = map toLowerCase_char s"

subsection \<open>JSON values\<close>

text \<open>
  The values \<open>JSON.parse\<close> and \<open>Response.json()\<close> produce. A number is carried as the
  decimal text ECMAScript prints for it (\<open>Number::toString\<close>, which is also what
  \<open>JSON.stringify\<close> emits), so both zeros read \<open>''0''\<close>. An object is the list of its
  own properties in enumeration order.
\<close>

datatype json =
    JNull
  | JBool bool
  | JNum string
  | JStr string
  | JArr "json list"
  | JObj "(string \<times> json) list"

fun truthy :: "json \<Rightarrow> bool" where
  "truthy JNull = False"
| "truthy (JBool b) = b"
| "truthy (JNum n) = (n \<noteq> ''0'')"
| "truthy (JStr s) = (s \<noteq> [])"
| "truthy (JArr _) = True"
| "truthy (JObj _) = True"

subsection \<open>Errors\<close>

text \<open>
  A \<open>platform_error\<close> is an exception the platform raised (a rejected \<open>fetch\<close>, a
  \<open>SyntaxError\<close> of the JSON parser, a \<open>TypeError\<close>). The module itself only ever
  constructs \<open>new Error(message)\<close> or \<open>new Error(message, { cause })\<close>.
\<close>

record platform_error =
  name :: string
  message :: string

datatype stream = ReadableStream string

datatype blob = Blob string

record response =
  ok :: bool
  status :: nat
  statusText :: string
  headers :: "(string \<times> string) list"
    \<comment> \<open>the entries of the \<open>Headers\<close> object: lower-case names, each once\<close>
  body :: "stream option"
  json :: "platform_error + json"
    \<comment> \<open>what \<open>response.json()\<close> settles to\<close>
  text' :: "platform_error + string"
    \<comment> \<open>what \<open>response.text()\<close> settles to\<close>
  blob :: "platform_error + blob"
    \<comment> \<open>what \<open>response.blob()\<close> settles to\<close>

definition headers_get :: "(string \<times> string) list \<Rightarrow> string \<Rightarrow> string option" where
  \<comment> \<open>\<open>headers.get(name)\<close>: header names compare without regard to case.\<close>
  "headers_get h n = map_of h (toLowerCase n)"

record cause =
  description :: "string option"
  response :: response

datatype error =
    Thrown platform_error
  | Error string "cause option"

subsection \<open>processBody and parseResponse\<close>

datatype body_value =
    BNull
  | BJson json
  | BText string
  | BBlob blob
  | BStream stream

definition contentType_of :: "response \<Rightarrow> string" where
  \<comment> \<open>\<open>(response.headers.get('content-type') || '').split(';')[0].trim()\<close>\<close>
  "contentType_of r =
     trim (split_first (CHR '';'')
       (case headers_get (headers r) ''content-type'' of None \<Rightarrow> [] | Some v \<Rightarrow> v))"

definition processBody :: "response \<Rightarrow> error + body_value" where
  "processBody r =
     (let contentType = contentType_of r in
      if contentType = ''application/json'' then
        (case json r of
           Inl e \<Rightarrow> Inl (Thrown e)
         | Inr v \<Rightarrow> Inr (BJson (if truthy v then v else JObj [])))
      else if startsWith contentType ''text/'' then
        (case text' r of
           Inl e \<Rightarrow> Inl (Thrown e)
         | Inr t \<Rightarrow> Inr (BText (if t \<noteq> [] then t else [])))
      else
        (case blob r of
           Inl e \<Rightarrow> Inl (Thrown e)
         | Inr b \<Rightarrow> Inr (BBlob b)))"

record parsed =
  parsed_body :: body_value
  parsed_headers :: "(string \<times> string) list"
  parsed_status :: nat

definition parseResponse :: "response \<Rightarrow> bool \<Rightarrow> error + parsed" where
  \<comment> \<open>The result \<open>{ body, headers, status }\<close>; \<open>headers\<close> is
      \<open>Object.fromEntries(rawHeaders.entries())\<close>. In streaming mode the body is
      \<open>response.body\<close>, which is \<open>null\<close> for a response without a body.\<close>
  "parseResponse r asStream =
     (if asStream then
        Inr \<lparr>parsed_body = (case body r of None \<Rightarrow> BNull | Some s \<Rightarrow> BStream s),
             parsed_headers = headers r, parsed_status = status r\<rparr>
      else if status r = 204 then
        Inr \<lparr>parsed_body = BNull, parsed_headers = headers r, parsed_status = status r\<rparr>
      else
        (case processBody r of
           Inl e \<Rightarrow> Inl e
         | Inr b \<Rightarrow>
             Inr \<lparr>parsed_body = b, parsed_headers = headers r, parsed_status = status r\<rparr>))"

subsection \<open>JSON.stringify and property access\<close>

definition hex_digit :: "bool \<Rightarrow> nat \<Rightarrow> char" where
  "hex_digit upper n =
     (if upper then ''0123456789ABCDEF'' else ''0123456789abcdef'') ! (n mod 16)"

definition hex2 :: "bool \<Rightarrow> nat \<Rightarrow> string" where
  "hex2 upper n = [hex_digit upper (n div 16), hex_digit upper n]"

definition quote_unit :: "char \<Rightarrow> string" where
  \<comment> \<open>One code unit inside \<open>QuoteJSONString\<close>: the two-character escapes, \<open>\u00xx\<close> for
      the other control characters, the unit itself otherwise.\<close>
  "quote_unit c =
     (let n = (of_char c :: nat) in
      if n = 8 then [CHR 0x5C, CHR ''b'']
      else if n = 9 then [CHR 0x5C, CHR ''t'']
      else if n = 10 then [CHR 0x5C, CHR ''n'']
      else if n = 12 then [CHR 0x5C, CHR ''f'']
      else if n = 13 then [CHR 0x5C, CHR ''r'']
      else if n = 34 then [CHR 0x5C, CHR 0x22]
      else if n = 92 then [CHR 0x5C, CHR 0x5C]
      else if n < 32 then [CHR 0x5C, CHR ''u'', CHR ''0'', CHR ''0''] @ hex2 False n
      else [c])"

definition QuoteJSONString :: "string \<Rightarrow> string" where
  "QuoteJSONString s = [CHR 0x22] @ concat (map quote_unit s) @ [CHR 0x22]"

fun join :: "string \<Rightarrow> string list \<Rightarrow> string" where
  "join sep [] = []"
| "join sep [x] = x"
| "join sep (x # y # ys) = x @ sep @ join sep (y # ys)"

text \<open>
  \<open>SerializeJSONProperty\<close> with the gap of two spaces that \<open>JSON.stringify(v, null, 2)\<close>
  uses; \<open>ind\<close> is the current indentation. A number that is not finite is printed as
  \<open>null\<close>.
\<close>

fun serialize :: "string \<Rightarrow> json \<Rightarrow> string"
  and serialize_elements :: "string \<Rightarrow> json list \<Rightarrow> string list"
  and serialize_properties :: "string \<Rightarrow> (string \<times> json) list \<Rightarrow> string list"
where
  "serialize ind JNull = ''null''"
| "serialize ind (JBool b) = (if b then ''true'' else ''false'')"
| "serialize ind (JNum n) =
     (if n \<in> {''Infinity'', ''-Infinity'', ''NaN''} then ''null'' else n)"
| "serialize ind (JStr s) = QuoteJSONString s"
| "serialize ind (JArr xs) =
     (if xs = [] then ''[]''
      else ''['' @ [CHR 0x0A] @ ind @ ''  ''
           @ join ('','' @ [CHR 0x0A] @ ind @ ''  '') (serialize_elements (ind @ ''  '') xs)
           @ [CHR 0x0A] @ ind @ '']'')"
| "serialize ind (JObj kvs) =
     (if kvs = [] then ''{}''
      else ''{'' @ [CHR 0x0A] @ ind @ ''  ''
           @ join ('','' @ [CHR 0x0A] @ ind @ ''  '') (serialize_properties (ind @ ''  '') kvs)
           @ [CHR 0x0A] @ ind @ ''}'')"
| "serialize_elements ind [] = []"
| "serialize_elements ind (x # xs) = serialize ind x # serialize_elements ind xs"
| "serialize_properties ind [] = []"
| "serialize_properties ind ((k, v) # kvs) =
     (QuoteJSONString k @ '': '' @ serialize ind v) # serialize_properties ind kvs"

definition JSON_stringify :: "json option \<Rightarrow> string option" where
  \<comment> \<open>\<open>JSON.stringify(value, null, 2)\<close>; \<open>None\<close> is \<open>undefined\<close>, which stringifies to
      \<open>undefined\<close>.\<close>
  "JSON_stringify v = map_option (serialize []) v"

definition TypeError :: "string \<Rightarrow> platform_error" where
  "TypeError m = \<lparr>name = ''TypeError'', message = m\<rparr>"

fun get_prop :: "json \<Rightarrow> string \<Rightarrow> platform_error + json option" where
  \<comment> \<open>\<open>value.key\<close> for a key that no prototype defines: \<open>undefined\<close> (\<open>None\<close>) unless an
      object has it, a \<open>TypeError\<close> on \<open>null\<close>.\<close>
  "get_prop JNull k =
     Inl (TypeError (''Cannot read properties of null (reading '' @ [CHR 0x27] @ k @ [CHR 0x27] @ '')''))"
| "get_prop (JObj kvs) k = Inr (map_of kvs k)"
| "get_prop _ k = Inr None"

definition truthy_opt :: "json option \<Rightarrow> bool" where
  "truthy_opt v = (case v of None \<Rightarrow> False | Some j \<Rightarrow> truthy j)"

subsection \<open>throwFailedRequestError\<close>

definition throwFailedRequestError ::
  "(string \<Rightarrow> platform_error + json) \<Rightarrow> response \<Rightarrow> error" where
  \<comment> \<open>Every path of the function throws; the value is what it throws. \<open>JSON_parse\<close> is
      the platform's \<open>JSON.parse\<close>.\<close>
  "throwFailedRequestError JSON_parse r =
     (case text' r of
        Inl e \<Rightarrow> Thrown e
      | Inr content \<Rightarrow>
          (case headers_get (headers r) ''Content-Type'' of
             None \<Rightarrow> Error (statusText r) (Some \<lparr>description = Some content, response = r\<rparr>)
           | Some contentType \<Rightarrow>
               if str_includes contentType ''application/json'' then
                 (case JSON_parse content of
                    Inl e \<Rightarrow> Thrown e
                  | Inr output \<Rightarrow>
                      (case get_prop output ''error'' of
                         Inl e \<Rightarrow> Thrown e
                       | Inr err \<Rightarrow>
                           (case (if truthy_opt err then Inr err else get_prop output ''message'') of
                              Inl e \<Rightarrow> Thrown e
                            | Inr v \<Rightarrow>
                                Error (statusText r)
                                  (Some \<lparr>description = JSON_stringify v, response = r\<rparr>))))
               else Error (statusText r) (Some \<lparr>description = Some content, response = r\<rparr>)))"

subsection \<open>getConditionalMode\<close>

definition getConditionalMode :: "string \<Rightarrow> string option" where
  \<comment> \<open>\<open>None\<close> is \<open>undefined\<close>, with which \<open>fetch\<close> uses its default mode.\<close>
  "getConditionalMode endpoint =
     (if str_includes endpoint ''repository/archive'' then Some ''same-origin'' else None)"

subsection \<open>The URL object\<close>

text \<open>
  A URL record of the WHATWG URL standard with a hierarchical path: the scheme, the
  serialised authority (credentials, host and port), the path segments, and the query and
  fragment, each \<open>None\<close> when the URL has none.
\<close>

record URL =
  scheme :: string
  authority :: string
  path :: "string list"
  query :: "string option"
  fragment :: "string option"

definition href :: "URL \<Rightarrow> string" where
  "href u =
     scheme u @ ''://'' @ authority u @ concat (map (\<lambda>seg. ''/'' @ seg) (path u))
     @ (case query u of None \<Rightarrow> [] | Some q \<Rightarrow> ''?'' @ q)
     @ (case fragment u of None \<Rightarrow> [] | Some f \<Rightarrow> ''#'' @ f)"

definition search :: "URL \<Rightarrow> string" where
  \<comment> \<open>the \<open>search\<close> getter\<close>
  "search u = (case query u of None \<Rightarrow> [] | Some q \<Rightarrow> if q = [] then [] else ''?'' @ q)"

definition is_special :: "string \<Rightarrow> bool" where
  "is_special s = (s \<in> {''ftp'', ''file'', ''http'', ''https'', ''ws'', ''wss''})"

definition in_fragment_encode_set :: "char \<Rightarrow> bool" where
  "in_fragment_encode_set c =
     (let n = (of_char c :: nat) in n \<le> 31 \<or> n > 126 \<or> n \<in> {32, 34, 60, 62, 96})"

definition in_query_encode_set :: "bool \<Rightarrow> char \<Rightarrow> bool" where
  \<comment> \<open>The query percent-encode set; the special-query set also holds the apostrophe.\<close>
  "in_query_encode_set special c =
     (let n = (of_char c :: nat) in
      n \<le> 31 \<or> n > 126 \<or> n \<in> {32, 34, 35, 60, 62} \<or> (special \<and> n = 39))"

definition in_path_encode_set :: "char \<Rightarrow> bool" where
  "in_path_encode_set c =
     (in_query_encode_set False c \<or> (of_char c :: nat) \<in> {63, 94, 96, 123, 125})"

definition utf8_percent_encode :: "(char \<Rightarrow> bool) \<Rightarrow> string \<Rightarrow> string" where
  \<comment> \<open>The code points above U+007F in reach are two bytes of UTF-8.\<close>
  "utf8_percent_encode in_set s =
     concat (map (\<lambda>c.
       let n = (of_char c :: nat) in
       if \<not> in_set c then [c]
       else if n < 128 then ''%'' @ hex2 True n
       else ''%'' @ hex2 True (192 + n div 64) @ ''%'' @ hex2 True (128 + n mod 64)) s)"

definition remove_tab_newline :: "string \<Rightarrow> string" where
  "remove_tab_newline s = filter (\<lambda>c. (of_char c :: nat) \<notin> {9, 10, 13}) s"

definition set_search :: "URL \<Rightarrow> string \<Rightarrow> URL" where
  \<comment> \<open>The \<open>search\<close> setter: the empty string removes the query; otherwise one leading
      \<open>?\<close> is dropped, tabs and newlines are removed and the rest is percent-encoded.\<close>
  "set_search u v =
     (if v = [] then u\<lparr>query := None\<rparr>
      else
        let input = remove_tab_newline (if hd v = CHR ''?'' then tl v else v)
        in u\<lparr>query :=
               Some (utf8_percent_encode (in_query_encode_set (is_special (scheme u))) input)\<rparr>)"

subsection \<open>A model of the URL parser\<close>

text \<open>
  \<open>new URL(input, base)\<close> after the basic URL parser of the WHATWG URL standard, for the
  schemes \<open>http\<close>, \<open>https\<close>, \<open>ws\<close>, \<open>wss\<close> and \<open>ftp\<close>: scheme, authority, path
  with its dot segments, query and fragment, and the resolution of a relative reference
  against a base. The host parser is not part of the model: the authority is kept as
  written, so the model is the standard's parser on authorities that are lower-case domain
  names without credentials or a default port. Other schemes are reported invalid.
\<close>

definition is_slash :: "char \<Rightarrow> bool" where
  \<comment> \<open>In the URLs of a special scheme a backslash separates like a slash.\<close>
  "is_slash c = (c = CHR ''/'' \<or> c = CHR 0x5C)"

definition is_alpha :: "char \<Rightarrow> bool" where
  "is_alpha c = (let n = (of_char c :: nat) in (65 \<le> n \<and> n \<le> 90) \<or> (97 \<le> n \<and> n \<le> 122))"

definition is_scheme_char :: "char \<Rightarrow> bool" where
  "is_scheme_char c =
     (let n = (of_char c :: nat) in is_alpha c \<or> (48 \<le> n \<and> n \<le> 57) \<or> n \<in> {43, 45, 46})"

definition split_scheme :: "string \<Rightarrow> (string \<times> string) option" where
  \<comment> \<open>The scheme, in lower case, and what follows its colon, when the input has one.\<close>
  "split_scheme s =
     (let a = takeWhile is_scheme_char s; b = dropWhile is_scheme_char s in
      if s \<noteq> [] \<and> is_alpha (hd s) \<and> b \<noteq> [] \<and> hd b = CHR '':''
      then Some (toLowerCase a, tl b) else None)"

fun split_where :: "(char \<Rightarrow> bool) \<Rightarrow> string \<Rightarrow> string list" where
  "split_where p [] = [[]]"
| "split_where p (c # cs) =
     (if p c then [] # split_where p cs
      else (case split_where p cs of [] \<Rightarrow> [[c]] | seg # segs \<Rightarrow> (c # seg) # segs))"

definition is_single_dot :: "string \<Rightarrow> bool" where
  "is_single_dot seg = (toLowerCase seg \<in> {''.'', ''%2e''})"

definition is_double_dot :: "string \<Rightarrow> bool" where
  "is_double_dot seg = (toLowerCase seg \<in> {''..'', ''.%2e'', ''%2e.'', ''%2e%2e''})"

fun add_segments :: "string list \<Rightarrow> string list \<Rightarrow> string list" where
  \<comment> \<open>The path state: each segment of the input in turn, the last one ended by the end of
      the path.\<close>
  "add_segments p [] = p"
| "add_segments p (seg # rest) =
     (if is_double_dot seg then
        (if rest = [] then butlast p @ [[]] else add_segments (butlast p) rest)
      else if is_single_dot seg then
        (if rest = [] then p @ [[]] else add_segments p rest)
      else add_segments (p @ [utf8_percent_encode in_path_encode_set seg]) rest)"

definition not_path_end :: "char \<Rightarrow> bool" where
  "not_path_end c = (c \<noteq> CHR ''?'' \<and> c \<noteq> CHR ''#'')"

definition query_of :: "bool \<Rightarrow> string \<Rightarrow> string option" where
  \<comment> \<open>the query of an input from which the path has been taken\<close>
  "query_of special t =
     (if t \<noteq> [] \<and> hd t = CHR ''?''
      then Some (utf8_percent_encode (in_query_encode_set special)
                   (takeWhile (\<lambda>c. c \<noteq> CHR ''#'') (tl t)))
      else None)"

definition fragment_of :: "string \<Rightarrow> string option" where
  "fragment_of t =
     (let f = dropWhile (\<lambda>c. c \<noteq> CHR ''#'') t in
      if f = [] then None else Some (utf8_percent_encode in_fragment_encode_set (tl f)))"

definition path_of :: "string list \<Rightarrow> string \<Rightarrow> string list" where
  \<comment> \<open>the path that starts a text, which is empty or begins with a slash, on top of
      \<open>p\<close>\<close>
  "path_of p t =
     (let ptxt = takeWhile not_path_end t in
      if ptxt = [] then p @ [[]] else add_segments p (split_where is_slash (tl ptxt)))"

definition Invalid_URL :: platform_error where
  "Invalid_URL = TypeError ''Invalid URL''"

definition parse_authority :: "string \<Rightarrow> string \<Rightarrow> platform_error + URL" where
  \<comment> \<open>the input from its authority on\<close>
  "parse_authority sch t =
     (let auth = takeWhile (\<lambda>c. \<not> is_slash c \<and> not_path_end c) t;
          rest = dropWhile (\<lambda>c. \<not> is_slash c \<and> not_path_end c) t
      in if auth = [] then Inl Invalid_URL
         else Inr \<lparr>scheme = sch, authority = auth, path = path_of [] rest,
                   query = query_of True (dropWhile not_path_end rest),
                   fragment = fragment_of rest\<rparr>)"

definition parse_relative :: "URL \<Rightarrow> string \<Rightarrow> platform_error + URL" where
  \<comment> \<open>the relative state and those it leads to\<close>
  "parse_relative b t =
     (if t = [] then Inr (b\<lparr>fragment := None\<rparr>)
      else if is_slash (hd t) then
        (if tl t \<noteq> [] \<and> is_slash (hd (tl t))
         then parse_authority (scheme b) (dropWhile is_slash t)
         else Inr (b\<lparr>path := path_of [] t, query := query_of True (dropWhile not_path_end t),
                      fragment := fragment_of t\<rparr>))
      else if hd t = CHR ''?'' then
        Inr (b\<lparr>query := query_of True t, fragment := fragment_of t\<rparr>)
      else if hd t = CHR ''#'' then Inr (b\<lparr>fragment := fragment_of t\<rparr>)
      else
        Inr (b\<lparr>path := add_segments (butlast (path b))
                         (split_where is_slash (takeWhile not_path_end t)),
                query := query_of True (dropWhile not_path_end t),
                fragment := fragment_of t\<rparr>))"

definition strip_input :: "string \<Rightarrow> string" where
  \<comment> \<open>leading and trailing C0 controls and spaces go, then all tabs and newlines\<close>
  "strip_input s =
     remove_tab_newline
       (rev (dropWhile (\<lambda>c. (of_char c :: nat) \<le> 32)
          (rev (dropWhile (\<lambda>c. (of_char c :: nat) \<le> 32) s))))"

definition basic_parse :: "string \<Rightarrow> URL option \<Rightarrow> platform_error + URL" where
  "basic_parse input b =
     (let s = strip_input input in
      case split_scheme s of
        None \<Rightarrow> (case b of None \<Rightarrow> Inl Invalid_URL | Some bu \<Rightarrow> parse_relative bu s)
      | Some (sch, rest) \<Rightarrow>
          if sch \<notin> {''http'', ''https'', ''ws'', ''wss'', ''ftp''} then Inl Invalid_URL
          else
            (case b of
               None \<Rightarrow> parse_authority sch (dropWhile is_slash rest)
             | Some bu \<Rightarrow>
                 if scheme bu = sch \<and> \<not> (prefix ''//'' rest)
                 then parse_relative bu rest
                 else parse_authority sch (dropWhile is_slash rest)))"

definition whatwg_URL :: "string \<Rightarrow> string option \<Rightarrow> platform_error + URL" where
  "whatwg_URL input base =
     (case base of
        None \<Rightarrow> basic_parse input None
      | Some b \<Rightarrow>
          (case basic_parse b None of
             Inl e \<Rightarrow> Inl e
           | Inr bu \<Rightarrow> basic_parse input (Some bu)))"

subsection \<open>The platform and the trace of a call\<close>

text \<open>
  \<open>fetch\<close> answers each call of one run of the handler, numbered from 0, with a
  response or a rejection. The request options other than the three the handler reads are
  an association list \<open>opts\<close> of values of some type \<open>'v\<close>.
\<close>

record 'v fetch_init =
  init_opts :: "(string \<times> 'v) list"
  mode :: "string option"

record 'v platform =
  URL_new :: "string \<Rightarrow> string option \<Rightarrow> platform_error + URL"
    \<comment> \<open>\<open>new URL(input, base)\<close>; it throws a \<open>TypeError\<close> on an invalid URL\<close>
  fetch :: "nat \<Rightarrow> URL \<Rightarrow> 'v fetch_init \<Rightarrow> platform_error + response"
  JSON_parse :: "string \<Rightarrow> platform_error + json"

datatype 'v event =
    Fetch URL "'v fetch_init"
  | Delay rat
    \<comment> \<open>\<open>delay(ms)\<close>, that is \<open>setTimeout(resolve, ms)\<close>\<close>

record 'v RequestOptions =
  prefixUrl :: "string option"
  asStream :: "bool option"
  searchParams :: "string option"
  opts :: "(string \<times> 'v) list"

subsection \<open>defaultRequestHandler\<close>

definition retryCodes :: "nat list" where
  "retryCodes = [429, 502]"

definition maxRetries :: nat where
  "maxRetries = 10"

definition literal_0_1 :: rat where
  \<comment> \<open>The number the literal \<open>0.1\<close> denotes: the binary64 value nearest to one tenth.\<close>
  "literal_0_1 = 3602879701896397 / 2 ^ 55"

text \<open>
  The \<open>for\<close> loop from index \<open>i\<close> on. The value is what the handler settles to and the
  calls of \<open>fetch\<close> and \<open>delay\<close> it makes, in order. \<open>2 ** i * 0.1\<close> is computed
  without rounding, a product of a binary64 number and a power of two.
\<close>

function attempts ::
  "'v platform \<Rightarrow> URL \<Rightarrow> 'v fetch_init \<Rightarrow> bool \<Rightarrow> nat \<Rightarrow> (error + parsed) \<times> 'v event list"
where
  "attempts P u init stream i =
     (if i < maxRetries then
        (case fetch P i u init of
           Inl e \<Rightarrow>
             (if name e = ''TimeoutError'' \<or> name e = ''AbortError''
              then (Inl (Error ''Query timeout was reached'' None), [Fetch u init])
              else (Inl (Thrown e), [Fetch u init]))
         | Inr r \<Rightarrow>
             if ok r then (parseResponse r stream, [Fetch u init])
             else if status r \<notin> set retryCodes
             then (Inl (throwFailedRequestError (JSON_parse P) r), [Fetch u init])
             else
               (case attempts P u init stream (i + 1) of
                  (res, evs) \<Rightarrow> (res, Fetch u init # Delay (2 ^ i * literal_0_1) # evs)))
      else (Inl (Error ''Could not successfully complete this request'' None), []))"
  by pat_completeness auto
termination
  by (relation "measure (\<lambda>(P, u, init, stream, i). maxRetries - i)") auto

declare attempts.simps [simp del]

definition baseUrl_of :: "string option \<Rightarrow> string option" where
  \<comment> \<open>\<open>if (prefixUrl) baseUrl = prefixUrl.endsWith('/') ? prefixUrl : `${prefixUrl}/`\<close>\<close>
  "baseUrl_of prefixUrl' =
     (case prefixUrl' of
        None \<Rightarrow> None
      | Some p \<Rightarrow> if p \<noteq> [] then Some (if endsWith p ''/'' then p else p @ ''/'') else None)"

definition options_or_empty :: "'v RequestOptions option \<Rightarrow> 'v RequestOptions" where
  \<comment> \<open>\<open>options || {}\<close>\<close>
  "options_or_empty options =
     (case options of
        None \<Rightarrow> \<lparr>prefixUrl = None, asStream = None, searchParams = None, opts = []\<rparr>
      | Some x \<Rightarrow> x)"

definition defaultRequestHandler ::
  "'v platform \<Rightarrow> string \<Rightarrow> 'v RequestOptions option \<Rightarrow> (error + parsed) \<times> 'v event list"
where
  "defaultRequestHandler P endpoint options =
     (let opt = options_or_empty options;
          baseUrl = baseUrl_of (prefixUrl opt)
      in case URL_new P endpoint baseUrl of
           Inl e \<Rightarrow> (Inl (Thrown e), [])
         | Inr url0 \<Rightarrow>
             let url = set_search url0
                         (case searchParams opt of
                            None \<Rightarrow> []
                          | Some sp \<Rightarrow> if sp \<noteq> [] then sp else []);
                 mode = getConditionalMode endpoint
             in attempts P url \<lparr>init_opts = opts opt, mode = mode\<rparr> (asStream opt = Some True) 0)"

subsection \<open>defaultOptionsHandler\<close>

record DefaultResourceOptions =
  url :: string
  rejectUnauthorized :: "bool option"

datatype agent = Agent (agent_rejectUnauthorized: bool)

record 'o options_with_agent =
  base_options :: 'o
  agent :: "agent option"

definition defaultOptionsHandler ::
  "('x DefaultResourceOptions_scheme \<Rightarrow> 'q \<Rightarrow> platform_error + 'o) \<Rightarrow> string
   \<Rightarrow> 'x DefaultResourceOptions_scheme \<Rightarrow> 'q \<Rightarrow> error + 'o options_with_agent"
where
  \<comment> \<open>\<open>baseOptionsHandler\<close> is the handler of requester-utils, which builds the options
      without an agent; \<open>typeof_window\<close> is what \<open>typeof window\<close> evaluates to. The
      import of the \<open>https\<close> module is taken to succeed.\<close>
  "defaultOptionsHandler baseOptionsHandler typeof_window resourceOptions requestOptions =
     (case baseOptionsHandler resourceOptions requestOptions of
        Inl e \<Rightarrow> Inl (Thrown e)
      | Inr options \<Rightarrow>
          if str_includes (url resourceOptions) ''https''
             \<and> rejectUnauthorized resourceOptions \<noteq> None
             \<and> rejectUnauthorized resourceOptions = Some False
          then
            (if typeof_window \<noteq> ''object''
             then Inr \<lparr>base_options = options, agent = Some (Agent False)\<rparr>
             else Inr \<lparr>base_options = options, agent = None\<rparr>)
          else Inr \<lparr>base_options = options, agent = None\<rparr>)"

subsection \<open>Reading a trace\<close>

fun fetch_calls :: "'v event list \<Rightarrow> (URL \<times> 'v fetch_init) list" where
  "fetch_calls [] = []"
| "fetch_calls (Fetch u init # evs) = (u, init) # fetch_calls evs"
| "fetch_calls (Delay ms # evs) = fetch_calls evs"

fun delays :: "'v event list \<Rightarrow> rat list" where
  "delays [] = []"
| "delays (Fetch u init # evs) = delays evs"
| "delays (Delay ms # evs) = ms # delays evs"

definition ok_by_status :: "response \<Rightarrow> bool" where
  \<comment> \<open>The Fetch standard: \<open>ok\<close> is true exactly for the statuses 200 to 299.\<close>
  "ok_by_status r = (ok r = (200 \<le> status r \<and> status r \<le> 299))"

definition retried :: "'v platform \<Rightarrow> URL \<Rightarrow> 'v fetch_init \<Rightarrow> nat \<Rightarrow> bool" where
  \<comment> \<open>Call \<open>j\<close> of \<open>fetch\<close> is answered by a response that sends the loop round again.\<close>
  "retried P u init j =
     (case fetch P j u init of
        Inl e \<Rightarrow> False
      | Inr r \<Rightarrow> \<not> ok r \<and> status r \<in> set retryCodes)"

subsection \<open>Sample responses and a scripted platform\<close>

text \<open>
  The inputs of the examples below, after the mocks of the module's test suite: responses
  with a JSON content type, and a \<open>fetch\<close> that answers its calls from a list.
\<close>

definition mock_response :: "nat \<Rightarrow> string \<Rightarrow> string \<Rightarrow> json \<Rightarrow> response" where
  "mock_response code phrase content v =
     \<lparr>ok = (200 \<le> code \<and> code \<le> 299), status = code, statusText = phrase,
      headers = [(''content-type'', ''application/json'')],
      body = Some (ReadableStream content),
      json = Inr v, text' = Inr content, blob = Inr (Blob content)\<rparr>"

definition scripted_fetch ::
  "(platform_error + response) list \<Rightarrow> nat \<Rightarrow> URL \<Rightarrow> string fetch_init
   \<Rightarrow> platform_error + response" where
  "scripted_fetch outcomes i u init =
     (if i < length outcomes then outcomes ! i
      else Inl \<lparr>name = ''TypeError'', message = ''fetch failed''\<rparr>)"

definition error_msg_text :: string where
  \<comment> \<open>the text \<open>{"error":"msg"}\<close>\<close>
  "error_msg_text = ''{'' @ [CHR 0x22] @ ''error'' @ [CHR 0x22] @ '':''
                    @ [CHR 0x22] @ ''msg'' @ [CHR 0x22] @ ''}''"

definition sample_JSON_parse :: "string \<Rightarrow> platform_error + json" where
  \<comment> \<open>\<open>JSON.parse\<close> on the two texts of the examples; no other text is parsed there.\<close>
  "sample_JSON_parse s =
     (if s = error_msg_text then Inr (JObj [(''error'', JStr ''msg'')])
      else if s = ''{}'' then Inr (JObj [])
      else Inl \<lparr>name = ''SyntaxError'', message = ''Unexpected token''\<rparr>)"

definition mock_platform :: "(platform_error + response) list \<Rightarrow> string platform" where
  "mock_platform outcomes =
     \<lparr>URL_new = whatwg_URL, fetch = scripted_fetch outcomes, JSON_parse = sample_JSON_parse\<rparr>"

definition too_many :: response where
  "too_many = mock_response 429 ''Too Many Requests'' ''{}'' (JObj [])"

definition bad_gateway :: response where
  "bad_gateway = mock_response 502 ''Bad Gateway'' ''{}'' (JObj [])"

definition all_fine :: response where
  "all_fine = mock_response 200 ''OK'' ''{}'' (JObj [])"

definition not_implemented :: response where
  "not_implemented =
     mock_response 501 ''Really Bad Error'' error_msg_text (JObj [(''error'', JStr ''msg'')])"

definition falsy_json_response :: response where
  \<comment> \<open>a response whose body is the JSON text \<open>false\<close>\<close>
  "falsy_json_response =
     \<lparr>ok = True, status = 200, statusText = ''OK'',
      headers = [(''content-type'', ''application/json; charset=utf-8'')],
      body = Some (ReadableStream ''false''),
      json = Inr (JBool False), text' = Inr ''false'', blob = Inr (Blob ''false'')\<rparr>"

definition padded_json_response :: response where
  \<comment> \<open>a response whose body is the JSON text \<open>{"test":5}\<close>\<close>
  "padded_json_response =
     \<lparr>ok = True, status = 200, statusText = ''OK'',
      headers = [(''content-type'', '' application/json ; charset=utf-8'')],
      body = None,
      json = Inr (JObj [(''test'', JNum ''5'')]),
      text' = Inr (''{'' @ [CHR 0x22] @ ''test'' @ [CHR 0x22] @ '':5}''),
      blob = Inr (Blob (''{'' @ [CHR 0x22] @ ''test'' @ [CHR 0x22] @ '':5}''))\<rparr>"

definition null_json_response :: response where
  \<comment> \<open>a response whose body is the JSON text \<open>null\<close>\<close>
  "null_json_response =
     \<lparr>ok = True, status = 200, statusText = ''OK'',
      headers = [(''content-type'', ''application/json'')],
      body = Some (ReadableStream ''null''),
      json = Inr JNull, text' = Inr ''null'', blob = Inr (Blob ''null'')\<rparr>"

definition test_5_text :: string where
  \<comment> \<open>the text \<open>{"test":5}\<close>\<close>
  "test_5_text = ''{'' @ [CHR 0x22] @ ''test'' @ [CHR 0x22] @ '':5}''"

definition found :: response where
  "found = mock_response 200 ''OK'' test_5_text (JObj [(''test'', JNum ''5'')])"

definition unexpected_token :: platform_error where
  "unexpected_token =
     \<lparr>name = ''SyntaxError'', message = ''Unexpected token < in JSON at position 0''\<rparr>"

definition undecodable :: response where
  \<comment> \<open>a 200 that declares JSON and carries a page of HTML, which \<open>json()\<close> refuses\<close>
  "undecodable =
     \<lparr>ok = True, status = 200, statusText = ''OK'',
      headers = [(''content-type'', ''application/json'')],
      body = Some (ReadableStream ''<html></html>''),
      json = Inl unexpected_token,
      text' = Inr ''<html></html>'', blob = Inr (Blob ''<html></html>'')\<rparr>"

definition no_content_response :: response where
  \<comment> \<open>a 204 whose declared type is JSON and whose empty body no JSON parser accepts\<close>
  "no_content_response =
     \<lparr>ok = True, status = 204, statusText = ''No Content'',
      headers = [(''content-type'', ''application/json'')],
      body = Some (ReadableStream []),
      json = Inl \<lparr>name = ''SyntaxError'', message = ''Unexpected end of JSON input''\<rparr>,
      text' = Inr [], blob = Inr (Blob [])\<rparr>"

definition timed_out :: platform_error where
  "timed_out = \<lparr>name = ''TimeoutError'', message = ''The operation timed out''\<rparr>"

definition network_down :: platform_error where
  "network_down = \<lparr>name = ''TypeError'', message = ''fetch failed''\<rparr>"

definition retried_once :: "string platform" where
  "retried_once = mock_platform [Inr too_many, Inr all_fine]"

section \<open>Body decoding\<close>

subsection \<open>The content type with its parameters stripped\<close>

lemma isWhiteSpace_not_semicolon: "isWhiteSpace c \<Longrightarrow> c \<noteq> CHR '';''"
  by (auto simp: isWhiteSpace_def)

lemma split_first_params:
  assumes "CHR '';'' \<notin> set s" and "params = [] \<or> hd params = CHR '';''"
  shows "split_first (CHR '';'') (s @ params) = s"
proof (cases params)
  case Nil
  with assms show ?thesis by (auto simp add: split_first_def)
next
  case (Cons p ps)
  with assms have "p = CHR '';''" by simp
  with Cons assms(1) show ?thesis
    by (auto simp add: split_first_def takeWhile_tail)
qed

lemma trim_padded:
  assumes "\<forall>c\<in>set ws1. isWhiteSpace c" and "\<forall>c\<in>set ws2. isWhiteSpace c"
    and "core \<noteq> []" and "\<not> isWhiteSpace (hd core)" and "\<not> isWhiteSpace (last core)"
  shows "trim (ws1 @ core @ ws2) = core"
proof -
  from assms(3) obtain c cs where core: "core = c # cs" by (cases core) auto
  with assms(4) have c: "\<not> isWhiteSpace c" by simp
  have "dropWhile isWhiteSpace (ws1 @ core @ ws2) = core @ ws2"
    using assms(1) c core by (simp add: dropWhile_append)
  moreover
  from assms(3) obtain ds d where core': "core = ds @ [d]" by (cases core rule: rev_cases) auto
  with assms(5) have d: "\<not> isWhiteSpace d" by simp
  have "dropWhile isWhiteSpace (rev (core @ ws2)) = rev core"
    using assms(2) d core' by (simp add: dropWhile_append)
  ultimately show ?thesis by (simp add: trim_def)
qed

lemma contentType_of_json:
  assumes h: "headers_get (headers r) ''content-type''
                = Some (ws1 @ ''application/json'' @ ws2 @ params)"
    and ws1: "\<forall>c\<in>set ws1. isWhiteSpace c" and ws2: "\<forall>c\<in>set ws2. isWhiteSpace c"
    and params: "params = [] \<or> hd params = CHR '';''"
  shows "contentType_of r = ''application/json''"
proof -
  have "CHR '';'' \<notin> set (ws1 @ ''application/json'' @ ws2)"
    using ws1 ws2 isWhiteSpace_not_semicolon by auto
  then have "split_first (CHR '';'') ((ws1 @ ''application/json'' @ ws2) @ params)
             = ws1 @ ''application/json'' @ ws2"
    using params by (rule split_first_params)
  moreover have "trim (ws1 @ ''application/json'' @ ws2) = ''application/json''"
    using ws1 ws2 by (rule trim_padded) (simp_all add: isWhiteSpace_def)
  ultimately show ?thesis using h by (simp add: contentType_of_def)
qed

subsection \<open>JSON bodies\<close>

text \<open>
  Claim C3, as the code has it. For every response whose \<open>content-type\<close> header is
  \<open>application/json\<close>, possibly padded with white space and followed by parameters after
  a semicolon, and whose body \<open>response.json()\<close> parses to a value: \<open>processBody\<close>
  returns exactly that value when it is truthy and the empty object \<open>{}\<close> when it is
  falsy, and the falsy values are \<open>null\<close>, \<open>false\<close>, \<open>0\<close> and the empty string.
\<close>

theorem processBody_json_truthy_or_empty_object:
  assumes "headers_get (headers r) ''content-type''
             = Some (ws1 @ ''application/json'' @ ws2 @ params)"
    and "\<forall>c\<in>set ws1. isWhiteSpace c" and "\<forall>c\<in>set ws2. isWhiteSpace c"
    and "params = [] \<or> hd params = CHR '';''"
    and "json r = Inr v"
  shows "processBody r = Inr (BJson (if truthy v then v else JObj []))
         \<and> (truthy v \<longleftrightarrow> v \<notin> {JNull, JBool False, JNum ''0'', JStr []})"
proof -
  have "contentType_of r = ''application/json''"
    using assms(1-4) by (rule contentType_of_json)
  then have "processBody r = Inr (BJson (if truthy v then v else JObj []))"
    using assms(5) by (simp add: processBody_def)
  moreover have "truthy v \<longleftrightarrow> v \<notin> {JNull, JBool False, JNum ''0'', JStr []}"
    by (cases v) auto
  ultimately show ?thesis by (rule conjI)
qed

text \<open>
  The theorem at a response of type \<open>application/json ; charset=utf-8\<close> with a space in
  front, whose body parses to \<open>{"test": 5}\<close>, and at a response whose body is \<open>null\<close>.
\<close>

theorem processBody_json_truthy_or_empty_object_witness:
  "processBody padded_json_response = Inr (BJson (JObj [(''test'', JNum ''5'')]))
   \<and> processBody null_json_response = Inr (BJson (JObj []))"
  using processBody_json_truthy_or_empty_object
    [of padded_json_response "'' ''" "'' ''" "''; charset=utf-8''"
       "JObj [(''test'', JNum ''5'')]"]
    processBody_json_truthy_or_empty_object [of null_json_response "[]" "[]" "[]" JNull]
  by (simp add: padded_json_response_def null_json_response_def headers_get_def toLowerCase_def
      toLowerCase_char_def isWhiteSpace_def)

text \<open>
  Claim C3 as stated fails: the body \<open>false\<close> is a JSON text that is not empty, its
  parsed value is \<open>false\<close>, and \<open>processBody\<close> returns \<open>{}\<close> instead.
\<close>

theorem processBody_falsy_json_counterexample:
  "contentType_of falsy_json_response = ''application/json''
   \<and> json falsy_json_response = Inr (JBool False)
   \<and> text' falsy_json_response = Inr ''false''
   \<and> processBody falsy_json_response = Inr (BJson (JObj []))
   \<and> processBody falsy_json_response \<noteq> Inr (BJson (JBool False))"
proof -
  have "contentType_of falsy_json_response = ''application/json''"
    by (simp add: contentType_of_def falsy_json_response_def headers_get_def toLowerCase_def
        toLowerCase_char_def split_first_def trim_def isWhiteSpace_def)
  then show ?thesis
    by (simp add: processBody_def) (simp add: falsy_json_response_def)
qed

subsection \<open>No Content and streaming\<close>

text \<open>
  Claim C4. In streaming mode \<open>parseResponse\<close> returns \<open>response.body\<close> as it is,
  whatever the status. Otherwise a response with status 204 gives the body \<open>null\<close>:
  the result mentions neither the content type nor what \<open>json()\<close>, \<open>text()\<close> or
  \<open>blob()\<close> would give, so nothing is decoded.
\<close>

theorem parseResponse_no_content:
  "parseResponse r True
     = Inr \<lparr>parsed_body = (case body r of None \<Rightarrow> BNull | Some s \<Rightarrow> BStream s),
            parsed_headers = headers r, parsed_status = status r\<rparr>
   \<and> (status r = 204 \<longrightarrow>
        parseResponse r False
          = Inr \<lparr>parsed_body = BNull, parsed_headers = headers r, parsed_status = 204\<rparr>)"
  by (simp add: parseResponse_def)

text \<open>
  The theorem at a 204 response of JSON type on whose empty body \<open>json()\<close> would
  reject: the call succeeds with \<open>null\<close>, and with the stream in streaming mode.
\<close>

theorem parseResponse_no_content_witness:
  "status no_content_response = 204
   \<and> parseResponse no_content_response False
       = Inr \<lparr>parsed_body = BNull, parsed_headers = [(''content-type'', ''application/json'')],
              parsed_status = 204\<rparr>
   \<and> parseResponse no_content_response True
       = Inr \<lparr>parsed_body = BStream (ReadableStream []),
              parsed_headers = [(''content-type'', ''application/json'')],
              parsed_status = 204\<rparr>"
  using parseResponse_no_content [of no_content_response]
  by (simp add: no_content_response_def)

section \<open>The retry loop\<close>

subsection \<open>One round of the loop\<close>

lemma attempts_rejected:
  assumes "i < maxRetries" and "fetch P i u init = Inl e"
  shows "attempts P u init s i =
           (Inl (if name e = ''TimeoutError'' \<or> name e = ''AbortError''
                 then Error ''Query timeout was reached'' None else Thrown e),
            [Fetch u init])"
  using assms by (subst attempts.simps) simp

lemma attempts_ok:
  assumes "i < maxRetries" and "fetch P i u init = Inr r" and "ok r"
  shows "attempts P u init s i = (parseResponse r s, [Fetch u init])"
  using assms by (subst attempts.simps) simp

lemma attempts_failed:
  assumes "i < maxRetries" and "fetch P i u init = Inr r" and "\<not> ok r"
    and "status r \<notin> set retryCodes"
  shows "attempts P u init s i =
           (Inl (throwFailedRequestError (JSON_parse P) r), [Fetch u init])"
  using assms by (subst attempts.simps) simp

lemma attempts_retry:
  assumes "i < maxRetries" and "fetch P i u init = Inr r" and "\<not> ok r"
    and "status r \<in> set retryCodes"
  shows "attempts P u init s i =
           (fst (attempts P u init s (Suc i)),
            Fetch u init # Delay (2 ^ i * literal_0_1) # snd (attempts P u init s (Suc i)))"
  using assms by (subst attempts.simps) (simp add: case_prod_beta)

lemma attempts_exhausted:
  assumes "\<not> i < maxRetries"
  shows "attempts P u init s i =
           (Inl (Error ''Could not successfully complete this request'' None), [])"
  using assms by (subst attempts.simps) simp

lemma attempts_retried:
  assumes "i < maxRetries" and "retried P u init i"
  shows "attempts P u init s i =
           (fst (attempts P u init s (Suc i)),
            Fetch u init # Delay (2 ^ i * literal_0_1) # snd (attempts P u init s (Suc i)))"
  using assms by (auto simp: retried_def split: sum.splits intro: attempts_retry)

lemma retryCodes_set: "set retryCodes = {429, 502}"
  by (auto simp: retryCodes_def)

lemma maxRetries_pos: "0 < maxRetries"
  by (simp add: maxRetries_def)

subsection \<open>Rounds that all retry\<close>

text \<open>
  When the calls from \<open>i\<close> up to \<open>k\<close> are all answered by a retryable status, the loop
  makes them, waits after each and goes on from \<open>k\<close>.
\<close>

lemma attempts_skip:
  assumes "i \<le> k" and "k \<le> maxRetries" and "\<forall>j. i \<le> j \<and> j < k \<longrightarrow> retried P u init j"
  shows "attempts P u init s i =
           (fst (attempts P u init s k),
            concat (map (\<lambda>j. [Fetch u init, Delay (2 ^ j * literal_0_1)]) [i..<k])
            @ snd (attempts P u init s k))"
  using assms
proof (induction rule: inc_induct)
  case base
  then show ?case by simp
next
  case (step n)
  then have "n < maxRetries" and "retried P u init n" by auto
  then have "attempts P u init s n =
           (fst (attempts P u init s (Suc n)),
            Fetch u init # Delay (2 ^ n * literal_0_1) # snd (attempts P u init s (Suc n)))"
    by (rule attempts_retried)
  moreover have "attempts P u init s (Suc n) =
           (fst (attempts P u init s k),
            concat (map (\<lambda>j. [Fetch u init, Delay (2 ^ j * literal_0_1)]) [Suc n..<k])
            @ snd (attempts P u init s k))"
    using step by auto
  ultimately show ?case using step.hyps by (simp add: upt_conv_Cons)
qed

lemma fetch_calls_append: "fetch_calls (xs @ ys) = fetch_calls xs @ fetch_calls ys"
  by (induction xs rule: fetch_calls.induct) auto

lemma delays_append: "delays (xs @ ys) = delays xs @ delays ys"
  by (induction xs rule: delays.induct) auto

lemma fetch_calls_rounds:
  "fetch_calls (concat (map (\<lambda>j. [Fetch u init, Delay (f j)]) js))
     = replicate (length js) (u, init)"
  by (induction js) auto

lemma delays_rounds:
  "delays (concat (map (\<lambda>j. [Fetch u init, Delay (f j)]) js)) = map f js"
  by (induction js) auto

subsection \<open>Every call carries the same request\<close>

lemma attempts_calls_same:
  "set (fetch_calls (snd (attempts P u init s i))) \<subseteq> {(u, init)}"
proof (induction P u init s i rule: attempts.induct)
  case (1 P u init s i)
  show ?case
  proof (cases "i < maxRetries")
    case False
    then show ?thesis by (simp add: attempts_exhausted)
  next
    case True
    show ?thesis
    proof (cases "fetch P i u init")
      case (Inl e)
      with True show ?thesis by (simp add: attempts_rejected)
    next
      case (Inr r)
      show ?thesis
      proof (cases "ok r")
        case True
        with \<open>i < maxRetries\<close> Inr show ?thesis by (simp add: attempts_ok)
      next
        case nok: False
        show ?thesis
        proof (cases "status r \<in> set retryCodes")
          case False
          with \<open>i < maxRetries\<close> Inr nok show ?thesis by (simp add: attempts_failed)
        next
          case True
          with \<open>i < maxRetries\<close> Inr nok "1.IH"
          show ?thesis by (simp add: attempts_retry)
        qed
      qed
    qed
  qed
qed

lemma attempts_first_call:
  assumes m: "0 < maxRetries"
  shows "set (fetch_calls (snd (attempts P u init s 0))) = {(u, init)}"
proof -
  have "fetch_calls (snd (attempts P u init s 0)) \<noteq> []"
    by (subst attempts.simps) (simp add: m case_prod_beta split: sum.splits)
  then obtain c where "c \<in> set (fetch_calls (snd (attempts P u init s 0)))"
    by (cases "fetch_calls (snd (attempts P u init s 0))") auto
  with attempts_calls_same [of P u init s 0] show ?thesis by auto
qed

subsection \<open>The handler around the loop\<close>

lemma handler_valid_url:
  assumes "URL_new P endpoint (baseUrl_of (prefixUrl (options_or_empty options))) = Inr u0"
  shows "defaultRequestHandler P endpoint options =
           attempts P
             (set_search u0 (case searchParams (options_or_empty options) of
                               None \<Rightarrow> [] | Some sp \<Rightarrow> if sp \<noteq> [] then sp else []))
             \<lparr>init_opts = opts (options_or_empty options), mode = getConditionalMode endpoint\<rparr>
             (asStream (options_or_empty options) = Some True) 0"
  using assms by (simp add: defaultRequestHandler_def Let_def)

lemma handler_invalid_url:
  assumes "URL_new P endpoint (baseUrl_of (prefixUrl (options_or_empty options))) = Inl e"
  shows "defaultRequestHandler P endpoint options = (Inl (Thrown e), [])"
  using assms by (simp add: defaultRequestHandler_def Let_def)

subsection \<open>The sample platform\<close>

lemma test_com_url:
  "whatwg_URL ''http://test.com'' None
     = Inr \<lparr>scheme = ''http'', authority = ''test.com'', path = [[]], query = None,
            fragment = None\<rparr>"
  by code_simp

lemma archive_url:
  "whatwg_URL ''http://test.com/repository/archive'' None
     = Inr \<lparr>scheme = ''http'', authority = ''test.com'', path = [''repository'', ''archive''],
            query = None, fragment = None\<rparr>"
  by code_simp

lemma query_url:
  "whatwg_URL ''http://test.com/a?x=1'' None
     = Inr \<lparr>scheme = ''http'', authority = ''test.com'', path = [''a''],
            query = Some ''x=1'', fragment = None\<rparr>"
  by code_simp

lemma mock_url_of:
  "whatwg_URL endpoint None = Inr u
   \<Longrightarrow> URL_new (mock_platform xs) endpoint (baseUrl_of (prefixUrl (options_or_empty None)))
       = Inr u"
  by (simp add: mock_platform_def options_or_empty_def baseUrl_of_def)

lemmas mock_url = mock_url_of [OF test_com_url]

lemma found_body: "processBody found = Inr (BJson (JObj [(''test'', JNum ''5'')]))"
  by (simp add: processBody_def found_def mock_response_def contentType_of_def headers_get_def
      toLowerCase_def toLowerCase_char_def split_first_def trim_def isWhiteSpace_def)

lemma undecodable_body: "processBody undecodable = Inl (Thrown unexpected_token)"
  by (simp add: processBody_def undecodable_def contentType_of_def headers_get_def
      toLowerCase_def toLowerCase_char_def split_first_def trim_def isWhiteSpace_def)

lemma lower_Content_Type: "toLowerCase ''Content-Type'' = ''content-type''"
  by code_simp

lemma mock_content_type:
  "headers_get (headers (mock_response code phrase content v)) ''Content-Type''
     = Some ''application/json''"
  by (simp add: mock_response_def headers_get_def lower_Content_Type)

lemma json_includes_json: "str_includes ''application/json'' ''application/json''"
  by (simp add: str_includes_def)

section \<open>Retrying\<close>

lemma three_attempts:
  assumes url: "URL_new P endpoint (baseUrl_of (prefixUrl (options_or_empty options))) = Inr u0"
    and a: "(\<forall>u init. fetch P 0 u init = Inr r0 \<and> fetch P 1 u init = Inr r1
                 \<and> fetch P 2 u init = Inr r2)
      \<and> status r0 = 429 \<and> status r1 = 502 \<and> status r2 = 200
      \<and> ok_by_status r0 \<and> ok_by_status r1 \<and> ok_by_status r2"
  shows "\<exists>u init. defaultRequestHandler P endpoint options
           = (parseResponse r2 (asStream (options_or_empty options) = Some True),
              [Fetch u init, Delay (2 ^ 0 * literal_0_1),
               Fetch u init, Delay (2 ^ 1 * literal_0_1), Fetch u init])"
proof -
  let ?u = "set_search u0 (case searchParams (options_or_empty options) of
                               None \<Rightarrow> [] | Some sp \<Rightarrow> if sp \<noteq> [] then sp else [])"
  let ?init = "\<lparr>init_opts = opts (options_or_empty options), mode = getConditionalMode endpoint\<rparr>"
  let ?s = "asStream (options_or_empty options) = Some True"
  have H: "defaultRequestHandler P endpoint options = attempts P ?u ?init ?s 0"
    using url by (rule handler_valid_url)
  from a have f: "fetch P 0 ?u ?init = Inr r0" "fetch P 1 ?u ?init = Inr r1"
      "fetch P 2 ?u ?init = Inr r2"
    by blast+
  from a have flags: "\<not> ok r0" "\<not> ok r1" "ok r2"
    by (simp_all add: ok_by_status_def)
  from a have codes: "status r0 \<in> set retryCodes" "status r1 \<in> set retryCodes"
    by (simp_all add: retryCodes_set)
  have 2: "attempts P ?u ?init ?s 2 = (parseResponse r2 ?s, [Fetch ?u ?init])"
    using f(3) flags(3) by (intro attempts_ok) (simp_all add: maxRetries_def)
  have 1: "attempts P ?u ?init ?s 1
            = (parseResponse r2 ?s,
               [Fetch ?u ?init, Delay (2 ^ 1 * literal_0_1), Fetch ?u ?init])"
    using attempts_retry [OF _ f(2) flags(2) codes(2), of ?s] 2
    by (simp add: maxRetries_def numeral_2_eq_2)
  have "attempts P ?u ?init ?s 0
            = (parseResponse r2 ?s,
               [Fetch ?u ?init, Delay (2 ^ 0 * literal_0_1),
                Fetch ?u ?init, Delay (2 ^ 1 * literal_0_1), Fetch ?u ?init])"
    using attempts_retry [OF _ f(1) flags(1) codes(1), of ?s] 1
    by (simp add: maxRetries_def)
  with H show ?thesis by (intro exI [of _ ?u] exI [of _ ?init]) simp
qed

lemma ten_attempts:
  assumes url: "URL_new P endpoint (baseUrl_of (prefixUrl (options_or_empty options))) = Inr u0"
    and a: "\<forall>i<10. \<forall>u init. \<exists>r. fetch P i u init = Inr r \<and> status r = 429 \<and> ok_by_status r"
  shows "\<exists>u init. defaultRequestHandler P endpoint options
           = (Inl (Error ''Could not successfully complete this request'' None),
              concat (map (\<lambda>j. [Fetch u init, Delay (2 ^ j * literal_0_1)]) [0..<10]))"
proof -
  let ?u = "set_search u0 (case searchParams (options_or_empty options) of
                               None \<Rightarrow> [] | Some sp \<Rightarrow> if sp \<noteq> [] then sp else [])"
  let ?init = "\<lparr>init_opts = opts (options_or_empty options), mode = getConditionalMode endpoint\<rparr>"
  let ?s = "asStream (options_or_empty options) = Some True"
  have H: "defaultRequestHandler P endpoint options = attempts P ?u ?init ?s 0"
    using url by (rule handler_valid_url)
  have "\<forall>j. 0 \<le> j \<and> j < maxRetries \<longrightarrow> retried P ?u ?init j"
  proof (intro allI impI)
    fix j assume "0 \<le> j \<and> j < maxRetries"
    then have "j < 10" by (simp add: maxRetries_def)
    with a obtain r where "fetch P j ?u ?init = Inr r" "status r = 429" "ok_by_status r"
      by blast
    then show "retried P ?u ?init j"
      by (simp add: retried_def ok_by_status_def retryCodes_set)
  qed
  then have "attempts P ?u ?init ?s 0 =
         (fst (attempts P ?u ?init ?s maxRetries),
          concat (map (\<lambda>j. [Fetch ?u ?init, Delay (2 ^ j * literal_0_1)]) [0..<maxRetries])
          @ snd (attempts P ?u ?init ?s maxRetries))"
    by (intro attempts_skip) simp_all
  then have "attempts P ?u ?init ?s 0 =
         (Inl (Error ''Could not successfully complete this request'' None),
          concat (map (\<lambda>j. [Fetch ?u ?init, Delay (2 ^ j * literal_0_1)]) [0..<10]))"
    by (simp add: attempts_exhausted) (simp add: maxRetries_def)
  with H show ?thesis by (intro exI [of _ ?u] exI [of _ ?init]) simp
qed

text \<open>
  Claim C1, as the code has it. Let the URL be valid, so that the handler reaches
  \<open>fetch\<close>, and let the responses carry the \<open>ok\<close> flag of their status. When the first
  three calls of \<open>fetch\<close> are answered with the statuses 429, 502 and 200, the handler
  calls \<open>fetch\<close> exactly three times and settles to what decoding the third response
  gives: in streaming mode the result with the stream; otherwise the result with the body
  \<open>processBody\<close> decodes, and the error of \<open>processBody\<close> when the body does not
  decode. When calls 0 to 9 are all answered with 429, it calls \<open>fetch\<close> exactly ten times
  and then fails with the fixed message.
\<close>

theorem retry_until_decoded_or_exhausted:
  assumes "URL_new P endpoint (baseUrl_of (prefixUrl (options_or_empty options))) = Inr u0"
  shows
    "((\<forall>u init. fetch P 0 u init = Inr r0 \<and> fetch P 1 u init = Inr r1
                 \<and> fetch P 2 u init = Inr r2)
      \<and> status r0 = 429 \<and> status r1 = 502 \<and> status r2 = 200
      \<and> ok_by_status r0 \<and> ok_by_status r1 \<and> ok_by_status r2
      \<longrightarrow> fst (defaultRequestHandler P endpoint options)
            = (if asStream (options_or_empty options) = Some True
               then Inr \<lparr>parsed_body = (case body r2 of None \<Rightarrow> BNull | Some s \<Rightarrow> BStream s),
                         parsed_headers = headers r2, parsed_status = 200\<rparr>
               else (case processBody r2 of
                       Inl e \<Rightarrow> Inl e
                     | Inr b \<Rightarrow> Inr \<lparr>parsed_body = b, parsed_headers = headers r2,
                                     parsed_status = 200\<rparr>))
          \<and> length (fetch_calls (snd (defaultRequestHandler P endpoint options))) = 3)
     \<and> ((\<forall>i<10. \<forall>u init. \<exists>r. fetch P i u init = Inr r \<and> status r = 429 \<and> ok_by_status r)
      \<longrightarrow> fst (defaultRequestHandler P endpoint options)
            = Inl (Error ''Could not successfully complete this request'' None)
          \<and> length (fetch_calls (snd (defaultRequestHandler P endpoint options))) = 10)"
proof (rule conjI; rule impI)
  assume a: "(\<forall>u init. fetch P 0 u init = Inr r0 \<and> fetch P 1 u init = Inr r1
                 \<and> fetch P 2 u init = Inr r2)
      \<and> status r0 = 429 \<and> status r1 = 502 \<and> status r2 = 200
      \<and> ok_by_status r0 \<and> ok_by_status r1 \<and> ok_by_status r2"
  from three_attempts [OF assms a] obtain u init
    where H: "defaultRequestHandler P endpoint options
           = (parseResponse r2 (asStream (options_or_empty options) = Some True),
              [Fetch u init, Delay (2 ^ 0 * literal_0_1),
               Fetch u init, Delay (2 ^ 1 * literal_0_1), Fetch u init])"
    by blast
  from a have r2: "status r2 = 200" by simp
  have "parseResponse r2 (asStream (options_or_empty options) = Some True)
          = (if asStream (options_or_empty options) = Some True
               then Inr \<lparr>parsed_body = (case body r2 of None \<Rightarrow> BNull | Some s \<Rightarrow> BStream s),
                         parsed_headers = headers r2, parsed_status = 200\<rparr>
               else (case processBody r2 of
                       Inl e \<Rightarrow> Inl e
                     | Inr b \<Rightarrow> Inr \<lparr>parsed_body = b, parsed_headers = headers r2,
                                     parsed_status = 200\<rparr>))"
    by (simp add: parseResponse_def r2 split: sum.splits)
  with H show "fst (defaultRequestHandler P endpoint options)
            = (if asStream (options_or_empty options) = Some True
               then Inr \<lparr>parsed_body = (case body r2 of None \<Rightarrow> BNull | Some s \<Rightarrow> BStream s),
                         parsed_headers = headers r2, parsed_status = 200\<rparr>
               else (case processBody r2 of
                       Inl e \<Rightarrow> Inl e
                     | Inr b \<Rightarrow> Inr \<lparr>parsed_body = b, parsed_headers = headers r2,
                                     parsed_status = 200\<rparr>))
          \<and> length (fetch_calls (snd (defaultRequestHandler P endpoint options))) = 3"
    by simp
next
  assume a: "\<forall>i<10. \<forall>u init. \<exists>r. fetch P i u init = Inr r \<and> status r = 429 \<and> ok_by_status r"
  from ten_attempts [OF assms a] obtain u init
    where "defaultRequestHandler P endpoint options
           = (Inl (Error ''Could not successfully complete this request'' None),
              concat (map (\<lambda>j. [Fetch u init, Delay (2 ^ j * literal_0_1)]) [0..<10]))"
    by blast
  then show "fst (defaultRequestHandler P endpoint options)
            = Inl (Error ''Could not successfully complete this request'' None)
          \<and> length (fetch_calls (snd (defaultRequestHandler P endpoint options))) = 10"
    by (simp add: fetch_calls_rounds)
qed

text \<open>
  The theorem on the sample platform: answers 429, 502 and 200 with the JSON body
  \<open>{"test":5}\<close>, which comes back decoded, and ten answers 429.
\<close>

theorem retry_until_decoded_or_exhausted_witness:
  "fst (defaultRequestHandler (mock_platform [Inr too_many, Inr bad_gateway, Inr found])
          ''http://test.com'' None)
     = Inr \<lparr>parsed_body = BJson (JObj [(''test'', JNum ''5'')]),
            parsed_headers = [(''content-type'', ''application/json'')], parsed_status = 200\<rparr>
   \<and> length (fetch_calls (snd (defaultRequestHandler
         (mock_platform [Inr too_many, Inr bad_gateway, Inr found]) ''http://test.com'' None)))
       = 3
   \<and> fst (defaultRequestHandler (mock_platform (replicate 10 (Inr too_many)))
          ''http://test.com'' None)
     = Inl (Error ''Could not successfully complete this request'' None)
   \<and> length (fetch_calls (snd (defaultRequestHandler
         (mock_platform (replicate 10 (Inr too_many))) ''http://test.com'' None)))
       = 10"
proof -
  have s: "status too_many = 429" "status bad_gateway = 502" "status found = 200"
    "ok_by_status too_many" "ok_by_status bad_gateway" "ok_by_status found"
    "headers found = [(''content-type'', ''application/json'')]"
    by (simp_all add: too_many_def bad_gateway_def found_def mock_response_def ok_by_status_def)
  show ?thesis
    using retry_until_decoded_or_exhausted
            [OF mock_url, of "[Inr too_many, Inr bad_gateway, Inr found]"
               too_many bad_gateway found]
      retry_until_decoded_or_exhausted [OF mock_url, of "replicate 10 (Inr too_many)"]
    by (simp add: s found_body mock_platform_def scripted_fetch_def options_or_empty_def)
qed

text \<open>
  Claim C1 as stated fails: after a 429 and a 502, a 200 that declares JSON and carries
  what \<open>json()\<close> refuses is fetched in three calls, and the handler rejects with the
  error of the parser, where the claim has a decoded result.
\<close>

theorem retry_then_undecodable_body_counterexample:
  "status too_many = 429 \<and> status bad_gateway = 502 \<and> status undecodable = 200
   \<and> ok undecodable
   \<and> fst (defaultRequestHandler (mock_platform [Inr too_many, Inr bad_gateway, Inr undecodable])
            ''http://test.com'' None)
       = Inl (Thrown unexpected_token)
   \<and> length (fetch_calls (snd (defaultRequestHandler
         (mock_platform [Inr too_many, Inr bad_gateway, Inr undecodable])
         ''http://test.com'' None))) = 3"
proof -
  let ?P = "mock_platform [Inr too_many, Inr bad_gateway, Inr undecodable]"
  have s: "status too_many = 429" "status bad_gateway = 502" "status undecodable = 200"
    "ok undecodable"
    "ok_by_status too_many" "ok_by_status bad_gateway" "ok_by_status undecodable"
    by (simp_all add: too_many_def bad_gateway_def undecodable_def mock_response_def
        ok_by_status_def)
  have f: "\<forall>u init. fetch ?P 0 u init = Inr too_many \<and> fetch ?P 1 u init = Inr bad_gateway
                 \<and> fetch ?P 2 u init = Inr undecodable"
    by (simp add: mock_platform_def scripted_fetch_def)
  from f s have "(\<forall>u init. fetch ?P 0 u init = Inr too_many \<and> fetch ?P 1 u init = Inr bad_gateway
                 \<and> fetch ?P 2 u init = Inr undecodable)
      \<and> status too_many = 429 \<and> status bad_gateway = 502 \<and> status undecodable = 200
      \<and> ok_by_status too_many \<and> ok_by_status bad_gateway \<and> ok_by_status undecodable"
    by (intro conjI)
  from three_attempts [OF mock_url this]
  obtain u init where "defaultRequestHandler ?P ''http://test.com'' None
           = (parseResponse undecodable
                (asStream (options_or_empty (None :: string RequestOptions option)) = Some True),
              [Fetch u init, Delay (2 ^ 0 * literal_0_1),
               Fetch u init, Delay (2 ^ 1 * literal_0_1), Fetch u init])"
    by blast
  then show ?thesis
    by (simp add: s options_or_empty_def parseResponse_def undecodable_body)
qed

section \<open>The delay between attempts\<close>

lemma delays_of_attempts:
  "\<exists>n. delays (snd (attempts P u init s i)) = map (\<lambda>j. 2 ^ j * literal_0_1) [i..<n]"
proof (induction P u init s i rule: attempts.induct)
  case (1 P u init s i)
  have none: "delays evs = [] \<Longrightarrow> \<exists>n. delays evs = map (\<lambda>j. 2 ^ j * literal_0_1) [i..<n]"
    for evs :: "'a event list"
    by (rule exI [of _ i]) simp
  show ?case
  proof (cases "i < maxRetries \<and> retried P u init i")
    case False
    then have "delays (snd (attempts P u init s i)) = []"
      by (subst attempts.simps) (auto simp: retried_def split: sum.splits)
    then show ?thesis by (rule none)
  next
    case True
    then obtain r where r: "fetch P i u init = Inr r" "\<not> ok r" "status r \<in> set retryCodes"
      by (auto simp: retried_def split: sum.splits)
    with True "1.IH" obtain n
      where n: "delays (snd (attempts P u init s (i + 1)))
                  = map (\<lambda>j. 2 ^ j * literal_0_1) [i + 1..<n]"
      by blast
    have "delays (snd (attempts P u init s i))
            = 2 ^ i * literal_0_1 # delays (snd (attempts P u init s (Suc i)))"
      using True by (simp add: attempts_retried)
    with n have "delays (snd (attempts P u init s i))
            = map (\<lambda>j. 2 ^ j * literal_0_1) [i..<max n (Suc i)]"
      by (cases "Suc i \<le> n") (simp_all add: upt_conv_Cons max_def)
    then show ?thesis by blast
  qed
qed

lemma literal_0_1_bounds: "999 / 10000 < literal_0_1 \<and> literal_0_1 < 1001 / 10000"
  by (simp add: literal_0_1_def)

lemma delay_below_100ms: "2 ^ j * literal_0_1 < 100 * 2 ^ j"
proof -
  have "literal_0_1 < 100" by (simp add: literal_0_1_def)
  moreover have "(0::rat) < 2 ^ j" by simp
  ultimately have "2 ^ j * literal_0_1 < 2 ^ j * 100"
    by (simp only: mult_less_cancel_left_pos)
  then show ?thesis by (simp add: mult.commute)
qed

text \<open>
  Claim C2 at a run whose first attempt is answered 429 and whose second is answered
  200: the handler waits once, and the argument it gives to \<open>delay(ms)\<close>, which goes to
  \<open>setTimeout\<close> unchanged, is \<open>2 ** 0 * 0.1\<close>: about a tenth of a millisecond, not the
  100 milliseconds of the claim. By \<open>delays_of_attempts\<close> and \<open>delay_below_100ms\<close> the
  wait after attempt \<open>i\<close> is always the binary64 number \<open>0.1\<close> times \<open>2 ^ i\<close>
  milliseconds.
\<close>

theorem first_retry_waits_a_tenth_of_a_millisecond:
  "delays (snd (defaultRequestHandler retried_once ''http://test.com'' None)) = [literal_0_1]
   \<and> 999 / 10000 < literal_0_1 \<and> literal_0_1 < 1001 / 10000
   \<and> literal_0_1 \<noteq> 100 * 2 ^ 0"
proof -
  let ?u = "\<lparr>scheme = ''http'', authority = ''test.com'', path = [[]], query = None,
            fragment = None\<rparr>"
  let ?init = "\<lparr>init_opts = [], mode = None\<rparr> :: string fetch_init"
  have m: "getConditionalMode ''http://test.com'' = None"
    unfolding getConditionalMode_def str_includes_def by code_simp
  have H: "defaultRequestHandler retried_once ''http://test.com'' None
            = attempts retried_once ?u ?init False 0"
    using handler_valid_url [OF mock_url, of "[Inr too_many, Inr all_fine]"]
    by (simp add: retried_once_def options_or_empty_def set_search_def m)
  have 1: "attempts retried_once ?u ?init False 1 = (parseResponse all_fine False, [Fetch ?u ?init])"
    by (rule attempts_ok [where r = all_fine])
      (simp_all add: maxRetries_def retried_once_def mock_platform_def scripted_fetch_def
        all_fine_def mock_response_def)
  have "attempts retried_once ?u ?init False 0
          = (parseResponse all_fine False,
             [Fetch ?u ?init, Delay (2 ^ 0 * literal_0_1), Fetch ?u ?init])"
    using attempts_retry [where r = too_many and P = retried_once and i = 0 and u = ?u
        and init = ?init and s = False] 1
    by (simp add: maxRetries_def retried_once_def mock_platform_def scripted_fetch_def
        too_many_def mock_response_def retryCodes_set)
  with H show ?thesis by (simp add: literal_0_1_def)
qed

section \<open>The request mode\<close>

text \<open>
  Claim C7. For every endpoint, every call of \<open>fetch\<close> the handler makes carries the mode
  of \<open>getConditionalMode\<close>, which is \<open>same-origin\<close> exactly when the endpoint contains
  the text \<open>repository/archive\<close> and is undefined otherwise.
\<close>

theorem same_origin_mode_for_archives_only:
  "(\<forall>c \<in> set (fetch_calls (snd (defaultRequestHandler P endpoint options))).
       mode (snd c) = getConditionalMode endpoint)
   \<and> (getConditionalMode endpoint = Some ''same-origin''
        \<longleftrightarrow> (\<exists>a b. endpoint = a @ ''repository/archive'' @ b))
   \<and> (getConditionalMode endpoint = None
        \<longleftrightarrow> \<not> (\<exists>a b. endpoint = a @ ''repository/archive'' @ b))"
proof -
  have "\<forall>c \<in> set (fetch_calls (snd (defaultRequestHandler P endpoint options))).
       mode (snd c) = getConditionalMode endpoint"
  proof (cases "URL_new P endpoint (baseUrl_of (prefixUrl (options_or_empty options)))")
    case (Inl e)
    then show ?thesis by (simp add: handler_invalid_url)
  next
    case (Inr u0)
    then show ?thesis
      using attempts_calls_same by (fastforce simp add: handler_valid_url)
  qed
  then show ?thesis
    by (simp add: getConditionalMode_def str_includes_def sublist_def)
qed

text \<open>
  The theorem at the endpoint of the test suite: one call, with mode \<open>same-origin\<close>.
\<close>

theorem same_origin_mode_for_archives_only_witness:
  "getConditionalMode ''http://test.com/repository/archive'' = Some ''same-origin''
   \<and> map (\<lambda>c. mode (snd c))
        (fetch_calls (snd (defaultRequestHandler (mock_platform [Inr all_fine])
           ''http://test.com/repository/archive'' None)))
     = [Some ''same-origin'']"
proof -
  let ?P = "mock_platform [Inr all_fine]"
  let ?e = "''http://test.com/repository/archive''"
  have "?e = ''http://test.com/'' @ ''repository/archive'' @ []" by simp
  then have ex: "\<exists>a b. ?e = a @ ''repository/archive'' @ b" by blast
  have "ok all_fine" by (simp add: all_fine_def mock_response_def)
  then have "fetch_calls (snd (defaultRequestHandler ?P ?e None))
      = [(set_search \<lparr>scheme = ''http'', authority = ''test.com'',
             path = [''repository'', ''archive''], query = None, fragment = None\<rparr> [],
          \<lparr>init_opts = [], mode = getConditionalMode ?e\<rparr>)]"
    using handler_valid_url [OF mock_url_of [OF archive_url], of "[Inr all_fine]"]
    by (simp add: options_or_empty_def attempts_ok [where r = all_fine] maxRetries_def
        mock_platform_def scripted_fetch_def)
  with same_origin_mode_for_archives_only [of ?P ?e None] ex show ?thesis by simp
qed

section \<open>Failures\<close>

text \<open>
  Claim C8. Let the URL be valid and the first call of \<open>fetch\<close> be answered by a response
  that is not ok, with a status outside the retry codes, whose \<open>Content-Type\<close> contains
  \<open>application/json\<close> and whose text parses to an object. Then the handler makes that one
  call, waits for nothing, and throws an error whose message is the status text and whose
  cause holds the response itself and, as description, \<open>JSON.stringify\<close> of the \<open>error\<close>
  property, or of the \<open>message\<close> property when \<open>error\<close> is absent (or falsy).
\<close>

theorem failed_request_is_normalised:
  assumes url: "URL_new P endpoint (baseUrl_of (prefixUrl (options_or_empty options))) = Inr u0"
    and resp: "\<forall>u init. fetch P 0 u init = Inr r"
    and nok: "\<not> ok r" and code: "status r \<notin> {429, 502}"
    and ct: "headers_get (headers r) ''Content-Type'' = Some contentType"
    and json: "str_includes contentType ''application/json''"
    and content: "text' r = Inr content"
    and parsed: "JSON_parse P content = Inr (JObj properties)"
  shows "fst (defaultRequestHandler P endpoint options)
           = Inl (Error (statusText r)
                   (Some \<lparr>description =
                            JSON_stringify
                              (if truthy_opt (map_of properties ''error'')
                               then map_of properties ''error''
                               else map_of properties ''message''),
                          response = r\<rparr>))
         \<and> length (fetch_calls (snd (defaultRequestHandler P endpoint options))) = 1
         \<and> delays (snd (defaultRequestHandler P endpoint options)) = []"
proof -
  let ?u = "set_search u0 (case searchParams (options_or_empty options) of
                               None \<Rightarrow> [] | Some sp \<Rightarrow> if sp \<noteq> [] then sp else [])"
  let ?init = "\<lparr>init_opts = opts (options_or_empty options), mode = getConditionalMode endpoint\<rparr>"
  let ?s = "asStream (options_or_empty options) = Some True"
  have H: "defaultRequestHandler P endpoint options = attempts P ?u ?init ?s 0"
    using url by (rule handler_valid_url)
  have "attempts P ?u ?init ?s 0
          = (Inl (throwFailedRequestError (JSON_parse P) r), [Fetch ?u ?init])"
    using resp nok code by (intro attempts_failed) (simp_all add: maxRetries_def retryCodes_set)
  moreover have "throwFailedRequestError (JSON_parse P) r
      = Error (statusText r)
                   (Some \<lparr>description =
                            JSON_stringify
                              (if truthy_opt (map_of properties ''error'')
                               then map_of properties ''error''
                               else map_of properties ''message''),
                          response = r\<rparr>)"
    using ct json content parsed by (simp add: throwFailedRequestError_def)
  ultimately show ?thesis using H by simp
qed

text \<open>
  The theorem at the response of the test suite, status 501 with the body
  \<open>{"error":"msg"}\<close>: the description is the text \<open>"msg"\<close>, quotes included.
\<close>

theorem failed_request_is_normalised_witness:
  "fst (defaultRequestHandler (mock_platform [Inr not_implemented]) ''http://test.com'' None)
     = Inl (Error ''Really Bad Error''
             (Some \<lparr>description = Some ([CHR 0x22] @ ''msg'' @ [CHR 0x22]),
                    response = not_implemented\<rparr>))
   \<and> length (fetch_calls (snd (defaultRequestHandler (mock_platform [Inr not_implemented])
        ''http://test.com'' None))) = 1
   \<and> delays (snd (defaultRequestHandler (mock_platform [Inr not_implemented])
        ''http://test.com'' None)) = []"
proof -
  have r: "\<not> ok not_implemented" "status not_implemented \<notin> {429, 502}"
    "text' not_implemented = Inr error_msg_text" "statusText not_implemented = ''Really Bad Error''"
    by (simp_all add: not_implemented_def mock_response_def)
  have h: "headers_get (headers not_implemented) ''Content-Type'' = Some ''application/json''"
    unfolding not_implemented_def by (rule mock_content_type)
  have f: "\<forall>u init. fetch (mock_platform [Inr not_implemented]) 0 u init = Inr not_implemented"
    by (simp add: mock_platform_def scripted_fetch_def)
  have p: "JSON_parse (mock_platform [Inr not_implemented]) error_msg_text
             = Inr (JObj [(''error'', JStr ''msg'')])"
    by (simp add: mock_platform_def sample_JSON_parse_def)
  show ?thesis
    using failed_request_is_normalised [OF mock_url f r(1) r(2) h json_includes_json r(3) p]
    by (simp add: r(4) truthy_opt_def JSON_stringify_def QuoteJSONString_def quote_unit_def)
qed

text \<open>
  Claim C9. Let the URL be valid, let the calls before call \<open>k\<close> be answered by retryable
  statuses, and let call \<open>k\<close> of \<open>fetch\<close> reject with \<open>e\<close>. Then the handler rejects at
  once, having made \<open>k + 1\<close> calls and waited \<open>k\<close> times: with the fixed error
  \<open>Query timeout was reached\<close> when \<open>e\<close> is named \<open>TimeoutError\<close> or \<open>AbortError\<close>,
  with \<open>e\<close> itself otherwise.
\<close>

theorem transport_failure_is_not_retried:
  assumes url: "URL_new P endpoint (baseUrl_of (prefixUrl (options_or_empty options))) = Inr u0"
    and k: "k < 10"
    and before: "\<forall>j<k. \<forall>u init. \<exists>r. fetch P j u init = Inr r \<and> \<not> ok r
                   \<and> status r \<in> {429, 502}"
    and rejected: "\<forall>u init. fetch P k u init = Inl e"
  shows "fst (defaultRequestHandler P endpoint options)
           = Inl (if name e = ''TimeoutError'' \<or> name e = ''AbortError''
                  then Error ''Query timeout was reached'' None else Thrown e)
         \<and> length (fetch_calls (snd (defaultRequestHandler P endpoint options))) = k + 1
         \<and> length (delays (snd (defaultRequestHandler P endpoint options))) = k"
proof -
  let ?u = "set_search u0 (case searchParams (options_or_empty options) of
                               None \<Rightarrow> [] | Some sp \<Rightarrow> if sp \<noteq> [] then sp else [])"
  let ?init = "\<lparr>init_opts = opts (options_or_empty options), mode = getConditionalMode endpoint\<rparr>"
  let ?s = "asStream (options_or_empty options) = Some True"
  have H: "defaultRequestHandler P endpoint options = attempts P ?u ?init ?s 0"
    using url by (rule handler_valid_url)
  have "\<forall>j. 0 \<le> j \<and> j < k \<longrightarrow> retried P ?u ?init j"
  proof (intro allI impI)
    fix j assume "0 \<le> j \<and> j < k"
    with before obtain r where "fetch P j ?u ?init = Inr r" "\<not> ok r" "status r \<in> {429, 502}"
      by blast
    then show "retried P ?u ?init j"
      by (simp add: retried_def retryCodes_set)
  qed
  then have "attempts P ?u ?init ?s 0 =
           (fst (attempts P ?u ?init ?s k),
            concat (map (\<lambda>j. [Fetch ?u ?init, Delay (2 ^ j * literal_0_1)]) [0..<k])
            @ snd (attempts P ?u ?init ?s k))"
    using k by (intro attempts_skip) (simp_all add: maxRetries_def)
  moreover have "attempts P ?u ?init ?s k =
           (Inl (if name e = ''TimeoutError'' \<or> name e = ''AbortError''
                 then Error ''Query timeout was reached'' None else Thrown e),
            [Fetch ?u ?init])"
    using k rejected by (intro attempts_rejected) (simp_all add: maxRetries_def)
  ultimately show ?thesis
    using H by (simp add: fetch_calls_append delays_append fetch_calls_rounds delays_rounds)
qed

text \<open>
  The theorem at a timeout on the second call, after a 429, and at a \<open>TypeError\<close> of the
  network on the first call.
\<close>

theorem transport_failure_is_not_retried_witness:
  "fst (defaultRequestHandler (mock_platform [Inr too_many, Inl timed_out]) ''http://test.com''
          None)
     = Inl (Error ''Query timeout was reached'' None)
   \<and> length (fetch_calls (snd (defaultRequestHandler
         (mock_platform [Inr too_many, Inl timed_out]) ''http://test.com'' None))) = 2
   \<and> fst (defaultRequestHandler (mock_platform [Inl network_down]) ''http://test.com'' None)
     = Inl (Thrown network_down)
   \<and> length (fetch_calls (snd (defaultRequestHandler
         (mock_platform [Inl network_down]) ''http://test.com'' None))) = 1"
proof -
  have 1: "\<forall>j<1. \<forall>u init. \<exists>r. fetch (mock_platform [Inr too_many, Inl timed_out]) j u init = Inr r
              \<and> \<not> ok r \<and> status r \<in> {429, 502}"
    by (simp add: mock_platform_def scripted_fetch_def too_many_def mock_response_def)
  have 2: "\<forall>u init. fetch (mock_platform [Inr too_many, Inl timed_out]) 1 u init = Inl timed_out"
    by (simp add: mock_platform_def scripted_fetch_def)
  have 3: "\<forall>j<0. \<forall>u init. \<exists>r. fetch (mock_platform [Inl network_down]) j u init = Inr r
              \<and> \<not> ok r \<and> status r \<in> {429, 502}"
    by simp
  have 4: "\<forall>u init. fetch (mock_platform [Inl network_down]) 0 u init = Inl network_down"
    by (simp add: mock_platform_def scripted_fetch_def)
  show ?thesis
    using transport_failure_is_not_retried [OF mock_url _ 1 2]
      transport_failure_is_not_retried [OF mock_url _ 3 4]
    by (simp add: timed_out_def network_down_def)
qed

section \<open>The request URL\<close>

text \<open>
  Claim C10. Let the URL be valid and \<open>searchParams\<close> be absent or empty. Then the URL
  of every call of \<open>fetch\<close>, and there is one, is the parsed URL with its query removed:
  its \<open>search\<close> is the empty string, whatever query the endpoint or the prefix brought.
\<close>

theorem empty_searchParams_removes_the_query:
  assumes url: "URL_new P endpoint (baseUrl_of (prefixUrl (options_or_empty options))) = Inr u0"
    and sp: "searchParams (options_or_empty options) = None
             \<or> searchParams (options_or_empty options) = Some []"
  shows "fst ` set (fetch_calls (snd (defaultRequestHandler P endpoint options)))
           = {u0\<lparr>query := None\<rparr>}
         \<and> search (u0\<lparr>query := None\<rparr>) = []"
proof -
  have "(case searchParams (options_or_empty options) of
           None \<Rightarrow> [] | Some sp \<Rightarrow> if sp \<noteq> [] then sp else []) = []"
    using sp by auto
  then have "defaultRequestHandler P endpoint options
      = attempts P (set_search u0 [])
             \<lparr>init_opts = opts (options_or_empty options), mode = getConditionalMode endpoint\<rparr>
             (asStream (options_or_empty options) = Some True) 0"
    using handler_valid_url [OF url] by simp
  then show ?thesis
    by (simp add: attempts_first_call maxRetries_pos set_search_def search_def)
qed

text \<open>
  The theorem at the endpoint \<open>http://test.com/a?x=1\<close> without options: the request
  goes to \<open>http://test.com/a\<close>.
\<close>

theorem empty_searchParams_removes_the_query_witness:
  "href ` fst ` set (fetch_calls (snd (defaultRequestHandler (mock_platform [Inr all_fine])
      ''http://test.com/a?x=1'' None)))
   = {''http://test.com/a''}"
proof -
  have "searchParams (options_or_empty None :: string RequestOptions) = None
        \<or> searchParams (options_or_empty None :: string RequestOptions) = Some []"
    by (simp add: options_or_empty_def)
  from empty_searchParams_removes_the_query
         [OF mock_url_of [OF query_url] this, of "[Inr all_fine]"]
  show ?thesis by (simp add: href_def)
qed

subsection \<open>The prefix and its trailing slash\<close>

lemma baseUrl_of_slash:
  "p \<noteq> [] \<Longrightarrow> \<not> endsWith p ''/'' \<Longrightarrow> baseUrl_of (Some p) = baseUrl_of (Some (p @ ''/''))"
  by (simp add: baseUrl_of_def endsWith_def suffix_def)

lemma handler_prefix_slash:
  assumes "p \<noteq> []" and "\<not> endsWith p ''/''"
  shows "defaultRequestHandler P endpoint (Some (opt\<lparr>prefixUrl := Some p\<rparr>))
         = defaultRequestHandler P endpoint (Some (opt\<lparr>prefixUrl := Some (p @ ''/'')\<rparr>))"
  using baseUrl_of_slash [OF assms]
  by (simp add: defaultRequestHandler_def options_or_empty_def Let_def split: sum.splits)

lemma projects_base:
  "baseUrl_of (Some ''http://test.com/projects'') = Some ''http://test.com/projects/''"
  "baseUrl_of (Some ''http://test.com/projects/'') = Some ''http://test.com/projects/''"
  by (simp_all add: baseUrl_of_def endsWith_def suffix_def)

lemma projects_url:
  "whatwg_URL ''testurl/123'' (Some ''http://test.com/projects/'')
     = Inr \<lparr>scheme = ''http'', authority = ''test.com'',
            path = [''projects'', ''testurl'', ''123''], query = None, fragment = None\<rparr>"
  by code_simp

lemma projects_without_slash:
  "map_sum id href (whatwg_URL ''testurl/123'' (Some ''http://test.com/projects''))
     = Inr ''http://test.com/testurl/123''"
  by code_simp

lemma projects_href:
  "href (set_search \<lparr>scheme = ''http'', authority = ''test.com'',
            path = [''projects'', ''testurl'', ''123''], query = None, fragment = None\<rparr> ''test=4'')
   = ''http://test.com/projects/testurl/123?test=4''"
  by code_simp

lemma projects_request:
  assumes "baseUrl_of (Some p) = Some ''http://test.com/projects/''"
  shows "href ` fst ` set (fetch_calls (snd (defaultRequestHandler (P\<lparr>URL_new := whatwg_URL\<rparr>)
      ''testurl/123''
      (Some \<lparr>prefixUrl = Some p, asStream = stream,
             searchParams = Some ''test=4'', opts = rest\<rparr>))))
     = {''http://test.com/projects/testurl/123?test=4''}"
proof -
  let ?o = "Some \<lparr>prefixUrl = Some p, asStream = stream,
                       searchParams = Some ''test=4'', opts = rest\<rparr>"
  have o: "options_or_empty ?o = \<lparr>prefixUrl = Some p, asStream = stream,
                       searchParams = Some ''test=4'', opts = rest\<rparr>"
    by (simp add: options_or_empty_def)
  have "URL_new (P\<lparr>URL_new := whatwg_URL\<rparr>) ''testurl/123''
            (baseUrl_of (prefixUrl (options_or_empty ?o)))
          = Inr \<lparr>scheme = ''http'', authority = ''test.com'',
            path = [''projects'', ''testurl'', ''123''], query = None, fragment = None\<rparr>"
    unfolding o by (simp add: assms projects_url)
  from handler_valid_url [OF this]
  have "defaultRequestHandler (P\<lparr>URL_new := whatwg_URL\<rparr>) ''testurl/123'' ?o
        = attempts (P\<lparr>URL_new := whatwg_URL\<rparr>)
            (set_search \<lparr>scheme = ''http'', authority = ''test.com'',
               path = [''projects'', ''testurl'', ''123''], query = None, fragment = None\<rparr>
               ''test=4'')
            \<lparr>init_opts = rest, mode = getConditionalMode ''testurl/123''\<rparr>
            (stream = Some True) 0"
    unfolding o by simp
  then show ?thesis
    by (simp only: attempts_first_call [OF maxRetries_pos] image_insert image_empty fst_conv
        projects_href)
qed

text \<open>
  Claim C5. On any platform whose \<open>URL\<close> is the one modelled above, the endpoint
  \<open>testurl/123\<close> with \<open>searchParams\<close> \<open>test=4\<close> is requested at
  \<open>http://test.com/projects/testurl/123?test=4\<close>, and at no other URL, both with the
  prefix \<open>http://test.com/projects\<close> and with the prefix \<open>http://test.com/projects/\<close>.
\<close>

theorem prefix_with_or_without_trailing_slash:
  "href ` fst ` set (fetch_calls (snd (defaultRequestHandler (P\<lparr>URL_new := whatwg_URL\<rparr>)
      ''testurl/123''
      (Some \<lparr>prefixUrl = Some ''http://test.com/projects'', asStream = stream,
             searchParams = Some ''test=4'', opts = rest\<rparr>))))
     = {''http://test.com/projects/testurl/123?test=4''}
   \<and> href ` fst ` set (fetch_calls (snd (defaultRequestHandler (P\<lparr>URL_new := whatwg_URL\<rparr>)
      ''testurl/123''
      (Some \<lparr>prefixUrl = Some ''http://test.com/projects/'', asStream = stream,
             searchParams = Some ''test=4'', opts = rest\<rparr>))))
     = {''http://test.com/projects/testurl/123?test=4''}"
  by (intro conjI projects_request projects_base)

section \<open>The options handler\<close>

lemma defaultOptionsHandler_agent:
  assumes "baseOptionsHandler resourceOptions requestOptions = Inr options"
  shows "defaultOptionsHandler baseOptionsHandler typeof_window resourceOptions requestOptions
         = Inr \<lparr>base_options = options,
                agent = (if (\<exists>a b. url resourceOptions = a @ ''https'' @ b)
                            \<and> rejectUnauthorized resourceOptions = Some False
                            \<and> typeof_window \<noteq> ''object''
                         then Some (Agent False) else None)\<rparr>"
  using assms by (simp add: defaultOptionsHandler_def str_includes_def sublist_def)

lemma http_url_includes_https: "str_includes ''http://https.test.com'' ''https''"
  unfolding str_includes_def by code_simp

text \<open>
  Claim C6 at a resource whose URL has the scheme \<open>http\<close> and a host that begins with
  \<open>https\<close>, with \<open>rejectUnauthorized: false\<close>, outside a browser: the handler attaches
  the agent that does not verify certificates, where the claim has none attached. By
  \<open>defaultOptionsHandler_agent\<close> the handler looks for the text \<open>https\<close> anywhere in the
  URL, not at its scheme.
\<close>

theorem agent_attached_to_http_url:
  "defaultOptionsHandler (\<lambda>resourceOptions requestOptions. Inr base) ''undefined''
     \<lparr>url = ''http://https.test.com'', rejectUnauthorized = Some False\<rparr> requestOptions
   = Inr \<lparr>base_options = base, agent = Some (Agent False)\<rparr>"
  by (simp add: defaultOptionsHandler_def http_url_includes_https)

end
